theory Spec2Isabelle
  imports Main "HOL-Library.Word"
begin

unbundle bit_operations_syntax

section \<open>The HTTP boundary of ent (src/ent.go)\<close>

text \<open>
  The file under study is the HTTP front of the object store: three handlers
  (\<open>handleCreate\<close>, \<open>handleGet\<close>, \<open>handleBucketList\<close>), the functions that craft
  the responses, the JSON form of \<open>ResponseFile\<close> and the byte-counting
  \<open>ReaderDelegator\<close>. Provider, FileSystem, Bucket and the handle type are declared
  elsewhere in the repository; the handlers receive them as interface values, and the
  model receives them as parameters.
\<close>

subsection \<open>Basic types\<close>

type_synonym byte = "8 word"

text \<open>A point in time and a \<open>time.Duration\<close>, both counted in nanoseconds.\<close>

type_synonym time = int

text \<open>A Go slice is either \<open>nil\<close> or a sequence; a pointer is either \<open>nil\<close> or a value.\<close>

type_synonym 'a slice = "'a list option"
type_synonym 'a ptr = "'a option"

definition len :: "'a slice \<Rightarrow> int" where
  "len s = (case s of None \<Rightarrow> 0 | Some xs \<Rightarrow> int (length xs))"

definition elems :: "'a slice \<Rightarrow> 'a list" where
  "elems s = (case s of None \<Rightarrow> [] | Some xs \<Rightarrow> xs)"

text \<open>
  Go \<open>error\<close> values. \<open>ErrBucketNotFound\<close> and \<open>ErrFileNotFound\<close> are the two
  sentinels that \<open>respondError\<close> compares against; \<open>ErrLength\<close> and
  \<open>InvalidByteError\<close> are the errors of encoding/hex; \<open>EOF\<close> is \<open>io.EOF\<close>; every
  other error value is \<open>OtherError\<close> with its text.
\<close>

datatype error =
    ErrBucketNotFound
  | ErrFileNotFound
  | ErrLength
  | InvalidByteError char
  | EOF
  | OtherError string

subsection \<open>Collaborators declared outside src/ent.go\<close>

text \<open>
  Modelled from the spec: the declaration of \<open>Bucket\<close> is not in src/ent.go. The spec
  gives a Bucket a \<open>Name\<close> and policy data; \<open>reportMetrics\<close> reads \<open>b.Name\<close> and
  nothing else, so the policy stays a type parameter.
\<close>

record 'p Bucket =
  Name :: string
  Policy :: 'p

text \<open>
  Modelled from the spec: the handle type returned by \<open>Create\<close> and \<open>Open\<close> is
  not in src/ent.go. The spec's ObjectHandle exposes a content digest (the source
  calls \<open>f.Hash()\<close>, which may fail), a last-modified timestamp and the stored bytes.
\<close>

record ObjectHandle =
  Hash :: "error + byte slice"
  LastModified :: time
  Content :: "byte list"

text \<open>
  \<open>Provider\<close> is an interface with \<open>Get(name)\<close> and \<open>List()\<close>; here a record of the
  two methods.
\<close>

record 'p Provider =
  p_Get :: "string \<Rightarrow> error + 'p Bucket ptr"
  p_List :: "error + 'p Bucket ptr slice"

subsection \<open>ReaderDelegator\<close>

text \<open>
  \<open>ReaderDelegator\<close> embeds an \<open>io.Reader\<close> and counts in \<open>BytesRead\<close>, a Go
  \<open>int\<close>: a machine integer whose width \<open>'w\<close> is that of the platform and whose
  addition wraps around; the record is used with a counter of type \<open>'w word\<close>.
  The embedded reader is its state \<open>'r\<close>; the \<open>Read\<close> method of that reader is
  the parameter \<open>io_Read\<close>, which takes the state and the buffer \<open>p\<close> and returns
  the count, the error (\<open>None\<close> for \<open>nil\<close>), the buffer as the call left it and
  the reader's new state.
\<close>

record ('r, 'n) ReaderDelegator =
  Reader :: 'r
  BytesRead :: 'n

type_synonym ('r, 'w) io_Read =
  "'r \<Rightarrow> byte list \<Rightarrow> ('w word \<times> error option) \<times> byte list \<times> 'r"

definition NewReaderDelegator :: "'r \<Rightarrow> ('r, 'w::len word) ReaderDelegator" where
  "NewReaderDelegator r = \<lparr>Reader = r, BytesRead = 0\<rparr>"

definition Read ::
  "('r, 'w::len) io_Read \<Rightarrow> ('r, 'w word) ReaderDelegator \<Rightarrow> byte list
     \<Rightarrow> ('w word \<times> error option) \<times> byte list \<times> ('r, 'w word) ReaderDelegator" where
  "Read io_Read r p =
     (case io_Read (Reader r) p of
        ((n, err), p', rd') \<Rightarrow>
          ((n, err), p', r\<lparr>Reader := rd', BytesRead := BytesRead r + n\<rparr>))"

text \<open>
  A consumer calling \<open>Read\<close> a number of times, once for each buffer of the list; the
  results of the calls come back in order, with the delegator as the last call left it.
\<close>

fun Reads ::
  "('r, 'w::len) io_Read \<Rightarrow> ('r, 'w word) ReaderDelegator \<Rightarrow> byte list list
     \<Rightarrow> (('w word \<times> error option) \<times> byte list) list \<times> ('r, 'w word) ReaderDelegator" where
  "Reads io_Read r [] = ([], r)"
| "Reads io_Read r (p # ps) =
     (case Read io_Read r p of
        (res, p', r') \<Rightarrow>
          (case Reads io_Read r' ps of (rs, r'') \<Rightarrow> ((res, p') # rs, r'')))"

text \<open>The same calls made on the embedded reader itself, with no delegator between.\<close>

fun io_Reads ::
  "('r, 'w::len) io_Read \<Rightarrow> 'r \<Rightarrow> byte list list
     \<Rightarrow> (('w word \<times> error option) \<times> byte list) list \<times> 'r" where
  "io_Reads io_Read s [] = ([], s)"
| "io_Reads io_Read s (p # ps) =
     (case io_Read s p of
        (res, p', s') \<Rightarrow>
          (case io_Reads io_Read s' ps of (rs, s'') \<Rightarrow> ((res, p') # rs, s'')))"

text \<open>The counts returned by a run of calls.\<close>

definition counts :: "(('w word \<times> error option) \<times> byte list) list \<Rightarrow> 'w word list" where
  "counts rs = map (\<lambda>r. fst (fst r)) rs"

text \<open>
  \<open>FileSystem\<close> is an interface with \<open>Create(bucket, key, reader)\<close> and
  \<open>Open(bucket, key)\<close>. \<open>Create\<close> receives the delegator by pointer and reads from
  it, so the model's \<open>fs_Create\<close> returns the delegator as \<open>Create\<close> left it;
  \<open>'d\<close> is the type of the delegator.
\<close>

record ('p, 'd) FileSystem =
  fs_Create :: "'p Bucket ptr \<Rightarrow> string \<Rightarrow> 'd \<Rightarrow> (error + ObjectHandle) \<times> 'd"
  fs_Open :: "'p Bucket ptr \<Rightarrow> string \<Rightarrow> error + ObjectHandle"

subsection \<open>encoding/hex\<close>

text \<open>
  \<open>hex.EncodeToString\<close> and \<open>hex.DecodeString\<close> of the Go library, which
  \<open>ResponseFile\<close> uses for its digest: two digits of \<open>hextable\<close> for each byte, the
  high four bits first; decoding accepts both letter cases, refuses a text of odd
  length with \<open>ErrLength\<close> and a character that is no digit with \<open>InvalidByteError\<close>
  (which of the two errors a text with both defects gets has changed between Go
  releases; that the call fails has not).
  A Go string is a byte sequence, as an Isabelle \<open>string\<close> is.
\<close>

definition hextable :: string where
  "hextable = ''0123456789abcdef''"

definition Encode :: "byte list \<Rightarrow> string" where
  "Encode src =
     concat (map (\<lambda>v. [hextable ! unat (drop_bit 4 v), hextable ! unat (v AND 0x0f)]) src)"

definition EncodeToString :: "byte slice \<Rightarrow> string" where
  "EncodeToString src = Encode (elems src)"

definition fromHexChar :: "char \<Rightarrow> byte option" where
  "fromHexChar c =
     (let n = (of_char c :: nat) in
      if of_char CHR ''0'' \<le> n \<and> n \<le> of_char CHR ''9'' then Some (of_nat (n - of_char CHR ''0''))
      else if of_char CHR ''a'' \<le> n \<and> n \<le> of_char CHR ''f'' then Some (of_nat (n - of_char CHR ''a'' + 10))
      else if of_char CHR ''A'' \<le> n \<and> n \<le> of_char CHR ''F'' then Some (of_nat (n - of_char CHR ''A'' + 10))
      else None)"

fun Decode :: "string \<Rightarrow> error + byte list" where
  "Decode (c1 # c2 # cs) =
     (case fromHexChar c1 of
        None \<Rightarrow> Inl (InvalidByteError c1)
      | Some a \<Rightarrow>
         (case fromHexChar c2 of
            None \<Rightarrow> Inl (InvalidByteError c2)
          | Some b \<Rightarrow>
             (case Decode cs of
                Inl e \<Rightarrow> Inl e
              | Inr bs \<Rightarrow> Inr ((push_bit 4 a OR b) # bs))))"
| "Decode cs = Inr []"

definition DecodeString :: "string \<Rightarrow> error + byte slice" where
  "DecodeString s =
     (if length s mod 2 = 1 then Inl ErrLength
      else case Decode s of Inl e \<Rightarrow> Inl e | Inr bs \<Rightarrow> Inr (Some bs))"

text \<open>
  The hexadecimal text of a byte sequence as the spec's words have it, by arithmetic:
  each byte is written in base sixteen as two digits, the sixteens first.
\<close>

definition hex_digit :: "nat \<Rightarrow> char" where
  "hex_digit d = (if d < 10 then char_of (of_char CHR ''0'' + d)
                  else char_of (of_char CHR ''a'' + (d - 10)))"

definition hex_text :: "byte list \<Rightarrow> string" where
  "hex_text h = concat (map (\<lambda>v. [hex_digit (unat v div 16), hex_digit (unat v mod 16)]) h)"

subsection \<open>encoding/json and UTF-8\<close>






subsection \<open>ResponseFile and its JSON form\<close>

text \<open>
  \<open>responseFileWrapper\<close> is the struct that encoding/json sees: the digest is a
  string there. \<open>ResponseFile\<close> is the value the handlers build: the digest is a byte
  slice. The wrapper is declared first so that the plain field names \<open>Bucket\<close>,
  \<open>Key\<close> and \<open>SHA1\<close> are those of \<open>ResponseFile\<close>.
\<close>

record 'p responseFileWrapper =
  Bucket :: "'p Bucket ptr"
  Key :: string
  SHA1 :: string

record 'p ResponseFile =
  Bucket :: "'p Bucket ptr"
  Key :: string
  SHA1 :: "byte slice"

text \<open>
  \<open>json.Marshal\<close> and \<open>json.Unmarshal\<close> belong to the Go library. At the wrapper
  type they are the parameters \<open>json_Marshal\<close> (a wrapper to its JSON text, or an
  error) and \<open>json_Unmarshal\<close> (a JSON text to the wrapper decoded from it into a
  fresh variable, or an error).
\<close>

definition MarshalJSON ::
  "('p responseFileWrapper \<Rightarrow> error + byte list) \<Rightarrow> 'p ResponseFile \<Rightarrow> error + byte list" where
  "MarshalJSON json_Marshal r =
     json_Marshal \<lparr>responseFileWrapper.Bucket = Bucket r,
                   responseFileWrapper.Key = Key r,
                   responseFileWrapper.SHA1 = EncodeToString (SHA1 r)\<rparr>"

text \<open>
  \<open>UnmarshalJSON\<close> has a pointer receiver: the model takes the receiver's value and
  returns the error (\<open>None\<close> for \<open>nil\<close>) with the receiver's value after the call.
\<close>

definition UnmarshalJSON ::
  "(byte list \<Rightarrow> error + 'p responseFileWrapper) \<Rightarrow> 'p ResponseFile \<Rightarrow> byte list
     \<Rightarrow> error option \<times> 'p ResponseFile" where
  "UnmarshalJSON json_Unmarshal r d =
     (case json_Unmarshal d of
        Inl err \<Rightarrow> (Some err, r)
      | Inr w \<Rightarrow>
         (case DecodeString (responseFileWrapper.SHA1 w) of
            Inl err \<Rightarrow> (Some err, r)
          | Inr h \<Rightarrow>
             (None, r\<lparr>Bucket := responseFileWrapper.Bucket w,
                       Key := responseFileWrapper.Key w,
                       SHA1 := h\<rparr>)))"

subsection \<open>Responses\<close>

record 'p ResponseCreated =
  Duration :: time
  File :: "'p ResponseFile"

record 'p ResponseBucketList =
  Count :: int
  Duration :: time
  Buckets :: "'p Bucket ptr slice"

record ResponseError =
  Code :: int
  Error :: string
  Description :: string

text \<open>
  What a handler leaves on the \<open>http.ResponseWriter\<close>: the headers it set, the status
  code, and the value it handed to \<open>json.NewEncoder(w).Encode\<close>. \<open>handleGet\<close> hands
  the response over to \<open>http.ServeContent\<close> instead; then the response is that call,
  with its name, modification time and content arguments.
\<close>

datatype 'p body =
    ErrorBody ResponseError
  | CreatedBody "'p ResponseCreated"
  | BucketListBody "'p ResponseBucketList"

record 'p Written =
  header :: "(string \<times> string) list"
  status :: int
  encoded :: "'p body"

datatype 'p response =
    Responded "'p Written"
  | ServeContent string time ObjectHandle

definition StatusOK :: int where "StatusOK = 200"
definition StatusCreated :: int where "StatusCreated = 201"
definition StatusNotFound :: int where "StatusNotFound = 404"
definition StatusInternalServerError :: int where "StatusInternalServerError = 500"

definition StatusText :: "int \<Rightarrow> string" where
  "StatusText code =
     (if code = StatusOK then ''OK''
      else if code = StatusCreated then ''Created''
      else if code = StatusNotFound then ''Not Found''
      else if code = StatusInternalServerError then ''Internal Server Error''
      else [])"

text \<open>
  \<open>time.Since(d)\<close>, with the clock reading \<open>now\<close> made explicit. The difference is
  taken in unbounded integers: Go saturates a \<open>Duration\<close> at the ends of \<open>int64\<close>,
  which the difference of two readings of one clock within a request does not reach.
\<close>

definition time_Since :: "time \<Rightarrow> time \<Rightarrow> time" where
  "time_Since now d = now - d"

definition respondCreated ::
  "time \<Rightarrow> 'p Bucket ptr \<Rightarrow> string \<Rightarrow> byte slice \<Rightarrow> time \<Rightarrow> 'p Written" where
  "respondCreated now b k h d =
     \<lparr>header = [(''Content-Type'', ''application/json'')],
      status = StatusCreated,
      encoded = CreatedBody
        \<lparr>ResponseCreated.Duration = time_Since now d,
         File = \<lparr>Bucket = b, Key = k, SHA1 = h\<rparr>\<rparr>\<rparr>"

text \<open>
  \<open>respondBucketList\<close> does not call \<open>WriteHeader\<close>: the first write of the body
  sends the status 200.
\<close>

definition respondBucketList :: "time \<Rightarrow> 'p Bucket ptr slice \<Rightarrow> time \<Rightarrow> 'p Written" where
  "respondBucketList now bs began =
     \<lparr>header = [(''Content-Type'', ''application/json'')],
      status = StatusOK,
      encoded = BucketListBody
        \<lparr>Count = len bs, Duration = time_Since now began, Buckets = bs\<rparr>\<rparr>"

text \<open>
  \<open>respondError\<close>: the \<open>switch\<close> compares \<open>err\<close> with the two sentinels and leaves
  the code at 500 otherwise. \<open>err_Error\<close> is the \<open>Error()\<close> method of the error
  value.
\<close>

definition respondError :: "(error \<Rightarrow> string) \<Rightarrow> string \<Rightarrow> string \<Rightarrow> error \<Rightarrow> 'p Written" where
  "respondError err_Error method url err =
     (let code = (case err of
                    ErrBucketNotFound \<Rightarrow> StatusNotFound
                  | ErrFileNotFound \<Rightarrow> StatusNotFound
                  | _ \<Rightarrow> StatusInternalServerError)
      in \<lparr>header = [(''Content-Type'', ''application/json'')],
          status = code,
          encoded = ErrorBody
            \<lparr>Code = code, Error = err_Error err, Description = StatusText code\<rparr>\<rparr>)"

subsection \<open>Metrics\<close>

text \<open>
  \<open>reportMetrics\<close> adds to the process-wide Prometheus counters. The model keeps the
  part of one call that this file decides and that is an integer or a string: the
  operation and bucket labels and the increment of the request byte counter, which is
  \<open>rd.BytesRead\<close> when a delegator is passed. The durations (\<open>float64\<close>) and the
  status and byte count held by the library's response writer are left out.
\<close>

record 'n Metrics =
  operation :: string
  bucket_label :: "string option"
  request_bytes :: "'n option"

definition reportMetrics ::
  "('r, 'n) ReaderDelegator ptr \<Rightarrow> 'p Bucket ptr \<Rightarrow> string \<Rightarrow> 'n Metrics" where
  "reportMetrics rd b op =
     \<lparr>operation = op,
      bucket_label = (case b of None \<Rightarrow> None | Some b' \<Rightarrow> Some (Name b')),
      request_bytes = (case rd of None \<Rightarrow> None | Some rd' \<Rightarrow> Some (BytesRead rd'))\<rparr>"

subsection \<open>Handlers\<close>

text \<open>
  Of the request a handler reads the method, the URL, the route variables \<open>:bucket\<close>
  and \<open>:key\<close> that the router stored in the query, and the body.
\<close>

record 'r Request =
  Method :: string
  URL :: string
  q_bucket :: string
  q_key :: string
  Body :: 'r

text \<open>
  The calls a handler makes on its collaborators, in order. A handler's outcome is its
  response, the calls it made and the metrics it reported, if the deferred
  \<open>reportMetrics\<close> was reached.
\<close>

datatype 'p call =
    Call_Get string
  | Call_List
  | Call_Create "'p Bucket ptr" string
  | Call_Open "'p Bucket ptr" string
  | Call_Hash

record ('p, 'n) Outcome =
  response :: "'p response"
  calls :: "'p call list"
  reported :: "'n Metrics option"

text \<open>
  The two readings of the clock are parameters: \<open>began\<close> is the \<open>time.Now()\<close> at the
  start of the handler, \<open>now\<close> the reading taken when the response is crafted.
  Closing the request body and wrapping the response writer for the metrics change
  nothing of what the handler writes, and are not modelled.
\<close>

definition handleCreate ::
  "'p Provider \<Rightarrow> ('p, ('r, 'w::len word) ReaderDelegator) FileSystem \<Rightarrow> (error \<Rightarrow> string)
     \<Rightarrow> time \<Rightarrow> time \<Rightarrow> 'r Request \<Rightarrow> ('p, 'w word) Outcome" where
  "handleCreate p fs err_Error began now r =
     (let bucket = q_bucket r; key = q_key r in
      case p_Get p bucket of
        Inl err \<Rightarrow>
          \<lparr>response = Responded (respondError err_Error (Method r) (URL r) err),
           calls = [Call_Get bucket],
           reported = None\<rparr>
      | Inr b \<Rightarrow>
         (let rd = NewReaderDelegator (Body r) in
          case fs_Create fs b key rd of
            (Inl err, rd') \<Rightarrow>
              \<lparr>response = Responded (respondError err_Error (Method r) (URL r) err),
               calls = [Call_Get bucket, Call_Create b key],
               reported = None\<rparr>
          | (Inr f, rd') \<Rightarrow>
             (case Hash f of
                Inl err \<Rightarrow>
                  \<lparr>response = Responded (respondError err_Error (Method r) (URL r) err),
                   calls = [Call_Get bucket, Call_Create b key, Call_Hash],
                   reported = None\<rparr>
              | Inr h \<Rightarrow>
                  \<lparr>response = Responded (respondCreated now b key h began),
                   calls = [Call_Get bucket, Call_Create b key, Call_Hash],
                   reported = Some (reportMetrics (Some rd') b ''handleCreate'')\<rparr>)))"

definition handleGet ::
  "'p Provider \<Rightarrow> ('p, 'd) FileSystem \<Rightarrow> (error \<Rightarrow> string)
     \<Rightarrow> time \<Rightarrow> time \<Rightarrow> 'r Request \<Rightarrow> ('p, 'w word) Outcome" where
  "handleGet p fs err_Error began now r =
     (let bucket = q_bucket r; key = q_key r in
      case p_Get p bucket of
        Inl err \<Rightarrow>
          \<lparr>response = Responded (respondError err_Error (Method r) (URL r) err),
           calls = [Call_Get bucket],
           reported = None\<rparr>
      | Inr b \<Rightarrow>
         (case fs_Open fs b key of
            Inl err \<Rightarrow>
              \<lparr>response = Responded (respondError err_Error (Method r) (URL r) err),
               calls = [Call_Get bucket, Call_Open b key],
               reported = None\<rparr>
          | Inr f \<Rightarrow>
              \<lparr>response = ServeContent key now f,
               calls = [Call_Get bucket, Call_Open b key],
               reported = Some (reportMetrics (None :: (unit, 'w word) ReaderDelegator ptr)
                                  b ''handleGet'')\<rparr>))"

definition handleBucketList ::
  "'p Provider \<Rightarrow> (error \<Rightarrow> string) \<Rightarrow> time \<Rightarrow> time \<Rightarrow> 'r Request
     \<Rightarrow> ('p, 'w word) Outcome" where
  "handleBucketList p err_Error began now r =
     (case p_List p of
        Inl err \<Rightarrow>
          \<lparr>response = Responded (respondError err_Error (Method r) (URL r) err),
           calls = [Call_List],
           reported = None\<rparr>
      | Inr bs \<Rightarrow>
          \<lparr>response = Responded (respondBucketList now bs began),
           calls = [Call_List],
           reported = Some (reportMetrics (None :: (unit, 'w word) ReaderDelegator ptr)
                              (None :: 'p Bucket ptr) ''handleBucketList'')\<rparr>)"

subsection \<open>The route of an object\<close>


















subsection \<open>Test doubles\<close>

text \<open>
  Provider and FileSystem are interfaces, so that the handlers can run against
  in-memory variants. The ones below give the theorems concrete runs: a request body
  held in memory, a provider that knows the bucket \<open>media\<close>, a file system that copies
  an upload through two reads of a four-byte buffer and uses the exclusive-or of the
  bytes as a one-byte digest, and a JSON codec that knows the texts of three wrappers,
  each as encoding/json writes it and reads it back: the third has a key that is the
  single byte FF, which is written as the escape of U+FFFD and read back as the three
  bytes EF BF BD. \<open>injectedRequest\<close> is a request whose query gives \<open>a b\<close> as the
  first value of \<open>:key\<close>.
\<close>

definition memRead :: "(byte list, 'w::len) io_Read" where
  "memRead s p =
     (if s = [] then ((0, Some EOF), p, s)
      else let n = min (length p) (length s)
           in ((of_nat n, None), take n s @ drop n p, drop n s))"

definition stored :: "(('w::len word \<times> error option) \<times> byte list) list \<Rightarrow> byte list" where
  "stored rs = concat (map (\<lambda>r. take (unat (fst (fst r))) (snd r)) rs)"

definition checksum :: "byte list \<Rightarrow> byte slice" where
  "checksum bs = Some [fold (XOR) bs 0]"

definition media :: "unit Bucket" where
  "media = \<lparr>Name = ''media'', Policy = ()\<rparr>"

definition testProvider :: "unit Provider" where
  "testProvider =
     \<lparr>p_Get = (\<lambda>name. if name = ''media'' then Inr (Some media) else Inl ErrBucketNotFound),
      p_List = Inr (Some [Some media])\<rparr>"

definition testFS ::
  "time \<Rightarrow> (string \<Rightarrow> byte list option)
     \<Rightarrow> (unit, (byte list, 'w::len word) ReaderDelegator) FileSystem" where
  "testFS mtime disk =
     \<lparr>fs_Create = (\<lambda>b key rd.
        case Reads memRead rd [[0, 0, 0, 0], [0, 0, 0, 0]] of
          (rs, rd') \<Rightarrow>
            (Inr \<lparr>Hash = Inr (checksum (stored rs)), LastModified = mtime,
                  Content = stored rs\<rparr>, rd')),
      fs_Open = (\<lambda>b key.
        case disk key of
          None \<Rightarrow> Inl ErrFileNotFound
        | Some bs \<Rightarrow> Inr \<lparr>Hash = Inr (checksum bs), LastModified = mtime, Content = bs\<rparr>)\<rparr>"

definition testErrorText :: "error \<Rightarrow> string" where
  "testErrorText e =
     (case e of
        ErrBucketNotFound \<Rightarrow> ''bucket not found''
      | ErrFileNotFound \<Rightarrow> ''file not found''
      | OtherError s \<Rightarrow> s
      | _ \<Rightarrow> ''error'')"

definition emptyDisk :: "string \<Rightarrow> byte list option" where
  "emptyDisk key = None"

definition clipDisk :: "string \<Rightarrow> byte list option" where
  "clipDisk key = (if key = ''clip1.mp3'' then Some [1, 2, 3] else None)"

definition clipHandle :: ObjectHandle where
  "clipHandle = \<lparr>Hash = Inr (checksum [1, 2, 3]), LastModified = 1000, Content = [1, 2, 3]\<rparr>"

definition testRequest :: "string \<Rightarrow> string \<Rightarrow> string \<Rightarrow> byte list \<Rightarrow> byte list Request" where
  "testRequest m bucket key bs =
     \<lparr>Method = m, URL = ''/'' @ bucket @ ''/'' @ key, q_bucket = bucket, q_key = key,
      Body = bs\<rparr>"

definition bytes_of :: "string \<Rightarrow> byte list" where
  "bytes_of s = map (\<lambda>c. of_nat (of_char c)) s"

definition goodWrapper :: "unit responseFileWrapper" where
  "goodWrapper =
     \<lparr>responseFileWrapper.Bucket = None, responseFileWrapper.Key = ''clip1.mp3'',
      responseFileWrapper.SHA1 = ''0aff''\<rparr>"

definition oddWrapper :: "unit responseFileWrapper" where
  "oddWrapper =
     \<lparr>responseFileWrapper.Bucket = None, responseFileWrapper.Key = ''clip1.mp3'',
      responseFileWrapper.SHA1 = ''0af''\<rparr>"

definition goodText :: "byte list" where
  \<open>goodText = bytes_of ''{"bucket":null,"key":"clip1.mp3","sha1":"0aff"}''\<close>

definition oddText :: "byte list" where
  \<open>oddText = bytes_of ''{"bucket":null,"key":"clip1.mp3","sha1":"0af"}''\<close>

definition badKeyWrapper :: "unit responseFileWrapper" where
  "badKeyWrapper =
     \<lparr>responseFileWrapper.Bucket = None, responseFileWrapper.Key = [CHR 0xFF],
      responseFileWrapper.SHA1 = ''0aff''\<rparr>"

definition replacedKeyWrapper :: "unit responseFileWrapper" where
  "replacedKeyWrapper =
     \<lparr>responseFileWrapper.Bucket = None, responseFileWrapper.Key = [CHR 0xEF, CHR 0xBF, CHR 0xBD],
      responseFileWrapper.SHA1 = ''0aff''\<rparr>"

definition badKeyText :: "byte list" where
  \<open>badKeyText =
     bytes_of (''{"bucket":null,"key":"'' @ [CHR 0x5C] @ ''ufffd","sha1":"0aff"}'')\<close>

definition testMarshal :: "unit responseFileWrapper \<Rightarrow> error + byte list" where
  "testMarshal w =
     (if w = goodWrapper then Inr goodText
      else if w = oddWrapper then Inr oddText
      else if w = badKeyWrapper then Inr badKeyText
      else Inl (OtherError ''unsupported value''))"

definition testUnmarshal :: "byte list \<Rightarrow> error + unit responseFileWrapper" where
  "testUnmarshal d =
     (if d = goodText then Inr goodWrapper
      else if d = oddText then Inr oddWrapper
      else if d = badKeyText then Inr replacedKeyWrapper
      else Inl (OtherError ''invalid JSON''))"





section \<open>Properties\<close>

subsection \<open>Facts about encoding/hex\<close>

lemma mask15: "(0x0f::byte) = mask 4"
  by (simp add: mask_eq_exp_minus_1)

lemma nib_lo_mod: "unat ((v::byte) AND 0x0f) = unat v mod 16"
  unfolding mask15 by (simp add: take_bit_eq_mod unat_mod flip: take_bit_eq_mask)

lemma nib_hi_div: "unat (drop_bit 4 (v::byte)) = unat v div 16"
  by (simp add: unat_div drop_bit_eq_div)


lemma nib_hi: "unat (drop_bit 4 (v::byte)) < 16"
proof -
  have "unat v < 256" using unsigned_less [of v] by simp
  then show ?thesis unfolding nib_hi_div by simp
qed

lemma nib_lo: "unat ((v::byte) AND 0x0f) < 16"
  unfolding nib_lo_mod by simp

lemma lt16: "(n::nat) < 16 \<Longrightarrow> n \<in> {0,1,2,3,4,5,6,7,8,9,10,11,12,13,14,15}"
  by (simp; arith)


lemma hex_digit_vals: "map hex_digit [0,1,2,3,4,5,6,7,8,9,10,11,12,13,14,15] = hextable"
  unfolding hex_digit_def hextable_def by code_simp

lemma hextable_digit: "n < 16 \<Longrightarrow> hextable ! n = hex_digit n"
  using hex_digit_vals by (drule_tac lt16) (auto simp: hextable_def)






lemma Encode_hex_text: "Encode bs = hex_text bs"
  by (simp add: Encode_def hex_text_def hextable_digit nib_hi nib_lo
        flip: nib_hi_div nib_lo_mod)

subsection \<open>Facts about the character class of the key\<close>











subsection \<open>Facts about the coercion to UTF-8\<close>







subsection \<open>Facts about ReaderDelegator\<close>

lemma Reads_delegates:
  "fst (Reads io_Read r ps) = fst (io_Reads io_Read (Reader r) ps)
   \<and> Reader (snd (Reads io_Read r ps)) = snd (io_Reads io_Read (Reader r) ps)
   \<and> BytesRead (snd (Reads io_Read r ps)) =
       BytesRead r + sum_list (counts (fst (Reads io_Read r ps)))"
proof (induction ps arbitrary: r)
  case Nil
  show ?case by (simp add: counts_def)
next
  case (Cons p ps)
  obtain n err p' s' where step: "io_Read (Reader r) p = ((n, err), p', s')"
    by (metis prod.exhaust)
  let ?r' = "r\<lparr>Reader := s', BytesRead := BytesRead r + n\<rparr>"
  have rd: "Read io_Read r p = ((n, err), p', ?r')"
    by (simp add: Read_def step)
  from Cons.IH [of ?r'] show ?case
    by (auto simp: rd step counts_def add.assoc split: prod.splits)
qed

lemma word_sum_list_of_int:
  "sum_list ns = (word_of_int (sum_list (map sint ns)) :: 'w::len word)"
  by (induction ns) simp_all

lemma sint_sum_list:
  fixes ns :: "'w::len word list"
  assumes "\<forall>n \<in> set ns. 0 \<le> sint n" and "sum_list (map sint ns) < 2 ^ (LENGTH('w) - 1)"
  shows "sint (sum_list ns) = sum_list (map sint ns)"
proof -
  from assms(1) have "0 \<le> sum_list (map sint ns)"
    by (induction ns) auto
  then have "- (2 ^ (LENGTH('w) - 1)) \<le> sum_list (map sint ns)"
    by (smt (verit) zero_less_power)
  with assms(2)
  have "signed_take_bit (LENGTH('w) - 1) (sum_list (map sint ns)) = sum_list (map sint ns)"
    by (simp add: signed_take_bit_int_eq_self)
  then show ?thesis
    by (subst word_sum_list_of_int) (simp add: signed_of_int)
qed

subsection \<open>Runs of the test doubles\<close>

lemma run5:
  "Reads memRead (NewReaderDelegator [1, 2, 3, 4, 5] :: (byte list, 64 word) ReaderDelegator)
     [[0, 0], [0, 0], [0, 0], [0, 0]]
   = ([((2, None), [1, 2]), ((2, None), [3, 4]), ((1, None), [5, 0]), ((0, Some EOF), [0, 0])],
      \<lparr>Reader = [], BytesRead = 5\<rparr>)"
  by (simp add: memRead_def Read_def NewReaderDelegator_def)

lemma upload1:
  "handleCreate testProvider (testFS 1000 emptyDisk) testErrorText 10 15
     (testRequest ''POST'' ''media'' ''clip1.mp3'' [0x61]) =
   (\<lparr>response = Responded
       \<lparr>header = [(''Content-Type'', ''application/json'')], status = 201,
        encoded = CreatedBody \<lparr>ResponseCreated.Duration = 5,
          File = \<lparr>Bucket = Some media, Key = ''clip1.mp3'', SHA1 = Some [0x61]\<rparr>\<rparr>\<rparr>,
     calls = [Call_Get ''media'', Call_Create (Some media) ''clip1.mp3'', Call_Hash],
     reported = Some \<lparr>operation = ''handleCreate'', bucket_label = Some ''media'',
                       request_bytes = Some 1\<rparr>\<rparr> :: (unit, 64 word) Outcome)"
  by (simp add: Let_def handleCreate_def testProvider_def testFS_def testRequest_def memRead_def
        Read_def NewReaderDelegator_def checksum_def stored_def respondCreated_def
        StatusCreated_def time_Since_def reportMetrics_def media_def)

lemma upload3:
  "handleCreate testProvider (testFS 1000 emptyDisk) testErrorText 10 15
     (testRequest ''POST'' ''media'' ''clip1.mp3'' [0x61, 0x62, 0x62]) =
   (\<lparr>response = Responded
       \<lparr>header = [(''Content-Type'', ''application/json'')], status = 201,
        encoded = CreatedBody \<lparr>ResponseCreated.Duration = 5,
          File = \<lparr>Bucket = Some media, Key = ''clip1.mp3'', SHA1 = Some [0x61]\<rparr>\<rparr>\<rparr>,
     calls = [Call_Get ''media'', Call_Create (Some media) ''clip1.mp3'', Call_Hash],
     reported = Some \<lparr>operation = ''handleCreate'', bucket_label = Some ''media'',
                       request_bytes = Some 3\<rparr>\<rparr> :: (unit, 64 word) Outcome)"
  by (simp add: Let_def handleCreate_def testProvider_def testFS_def testRequest_def memRead_def
        Read_def NewReaderDelegator_def checksum_def stored_def respondCreated_def
        StatusCreated_def time_Since_def reportMetrics_def media_def)

lemma create1:
  "fs_Create (testFS 1000 emptyDisk) (Some media) ''clip1.mp3''
     (NewReaderDelegator [0x61] :: (byte list, 64 word) ReaderDelegator) =
   (Inr \<lparr>Hash = Inr (Some [0x61]), LastModified = 1000, Content = [0x61]\<rparr>,
    \<lparr>Reader = [], BytesRead = 1\<rparr>)"
  by (simp add: testFS_def memRead_def Read_def NewReaderDelegator_def checksum_def stored_def)



subsection \<open>Status codes of error responses\<close>

text \<open>
  C1. Whatever error a handler passes to \<open>respondError\<close>, the status code written is
  404 exactly when the error is \<open>ErrBucketNotFound\<close> or \<open>ErrFileNotFound\<close>, and 500
  for every other error value.
\<close>

theorem respondError_status:
  "status (respondError err_Error method url err :: 'p Written) =
     (if err = ErrBucketNotFound \<or> err = ErrFileNotFound then 404 else 500)"
  by (cases err)
     (simp_all add: respondError_def StatusNotFound_def StatusInternalServerError_def)

theorem respondError_status_witness:
  "status (respondError testErrorText ''GET'' ''/media/missing.mp3'' ErrFileNotFound
             :: unit Written) = 404
   \<and> status (respondError testErrorText ''GET'' ''/nosuch/a'' ErrBucketNotFound
             :: unit Written) = 404
   \<and> status (respondError testErrorText ''POST'' ''/media/a'' (OtherError ''disk full'')
             :: unit Written) = 500"
  using respondError_status [of testErrorText "''GET''" "''/media/missing.mp3''"
          ErrFileNotFound]
    respondError_status [of testErrorText "''GET''" "''/nosuch/a''"
          ErrBucketNotFound]
    respondError_status [of testErrorText "''POST''" "''/media/a''"
          "OtherError ''disk full''"]
  by simp

subsection \<open>The key alphabet of the route\<close>




subsection \<open>Bucket lookup before storage\<close>

text \<open>
  C5. In \<open>handleCreate\<close> and in \<open>handleGet\<close>, when the provider's \<open>Get\<close> fails the
  handler answers with that error and its only call is the lookup: neither \<open>Create\<close>
  nor \<open>Open\<close> is made. Every call of \<open>Create\<close> or \<open>Open\<close> that a handler does make
  carries the bucket that the provider's \<open>Get\<close> returned for the request.
\<close>

theorem provider_failure_skips_filesystem:
  fixes fs :: "('p, ('r, 'w::len word) ReaderDelegator) FileSystem"
  shows "let oc = handleCreate p fs err_Error began now r;
             og = (handleGet p fs err_Error began now r :: ('p, 'w word) Outcome)
         in (\<forall>e. p_Get p (q_bucket r) = Inl e \<longrightarrow>
                response oc = Responded (respondError err_Error (Method r) (URL r) e)
              \<and> calls oc = [Call_Get (q_bucket r)]
              \<and> response og = Responded (respondError err_Error (Method r) (URL r) e)
              \<and> calls og = [Call_Get (q_bucket r)])
          \<and> (\<forall>b k. Call_Create b k \<in> set (calls oc) \<or> Call_Open b k \<in> set (calls oc)
                    \<or> Call_Create b k \<in> set (calls og) \<or> Call_Open b k \<in> set (calls og)
                 \<longrightarrow> p_Get p (q_bucket r) = Inr b)"
  by (auto simp: handleCreate_def handleGet_def Let_def split: sum.splits prod.splits)

theorem provider_failure_skips_filesystem_witness:
  "p_Get testProvider ''nosuch'' = Inl ErrBucketNotFound
   \<and> calls (handleCreate testProvider (testFS 1000 emptyDisk) testErrorText 10 15
            (testRequest ''POST'' ''nosuch'' ''clip1.mp3'' [0x61]) :: (unit, 64 word) Outcome)
     = [Call_Get ''nosuch'']
   \<and> calls (handleGet testProvider
              (testFS 1000 emptyDisk :: (unit, (byte list, 64 word) ReaderDelegator) FileSystem)
              testErrorText 10 15
              (testRequest ''POST'' ''nosuch'' ''clip1.mp3'' [0x61]) :: (unit, 64 word) Outcome)
     = [Call_Get ''nosuch'']
   \<and> Call_Create (Some media) ''clip1.mp3''
       \<in> set (calls (handleCreate testProvider (testFS 1000 emptyDisk) testErrorText
                 10 15 (testRequest ''POST'' ''media'' ''clip1.mp3'' [0x61])
                 :: (unit, 64 word) Outcome))
   \<and> p_Get testProvider ''media'' = Inr (Some media)"
  using provider_failure_skips_filesystem [of testProvider
          "testFS 1000 emptyDisk :: (unit, (byte list, 64 word) ReaderDelegator) FileSystem"
          testErrorText 10 15 "testRequest ''POST'' ''nosuch'' ''clip1.mp3'' [0x61]"]
        provider_failure_skips_filesystem [of testProvider
          "testFS 1000 emptyDisk :: (unit, (byte list, 64 word) ReaderDelegator) FileSystem"
          testErrorText 10 15 "testRequest ''POST'' ''media'' ''clip1.mp3'' [0x61]"]
  by (simp add: Let_def testProvider_def testRequest_def handleCreate_def testFS_def
        memRead_def Read_def NewReaderDelegator_def checksum_def stored_def)

subsection \<open>The body of a successful upload\<close>

text \<open>
  C2, as stated, fails. The claim wants the body of every successful upload to contain
  the digest and the byte count. Two uploads of one and three bytes, which the test
  file system gives the same digest, get the same response, while the byte counts that
  the handler reports to the metrics are 1 and 3: the body does not determine the
  byte count.
\<close>

theorem upload_body_omits_byte_count:
  "response (handleCreate testProvider (testFS 1000 emptyDisk) testErrorText 10 15
               (testRequest ''POST'' ''media'' ''clip1.mp3'' [0x61]) :: (unit, 64 word) Outcome)
     = response (handleCreate testProvider (testFS 1000 emptyDisk) testErrorText 10 15
               (testRequest ''POST'' ''media'' ''clip1.mp3'' [0x61, 0x62, 0x62])
               :: (unit, 64 word) Outcome)
   \<and> map_option request_bytes
         (reported (handleCreate testProvider (testFS 1000 emptyDisk) testErrorText 10 15
               (testRequest ''POST'' ''media'' ''clip1.mp3'' [0x61]) :: (unit, 64 word) Outcome))
       = Some (Some 1)
   \<and> map_option request_bytes
         (reported (handleCreate testProvider (testFS 1000 emptyDisk) testErrorText 10 15
               (testRequest ''POST'' ''media'' ''clip1.mp3'' [0x61, 0x62, 0x62])
               :: (unit, 64 word) Outcome))
       = Some (Some 3)"
  unfolding upload1 upload3 by simp

text \<open>
  C2, amended. For every successful upload (the bucket is found, \<open>Create\<close> and
  \<open>Hash\<close> succeed) the response has status 201 and its body holds the duration and
  a file made of the bucket, the key and the computed digest, and nothing else. The
  byte count is not in the body: the handler passes it, as \<open>BytesRead\<close> of the
  delegator that \<open>Create\<close> read from, to the request byte counter of the metrics.
\<close>

theorem upload_body_digest_only:
  fixes fs :: "('p, ('r, 'w::len word) ReaderDelegator) FileSystem"
  assumes "p_Get p (q_bucket r) = Inr b"
      and "fs_Create fs b (q_key r) (NewReaderDelegator (Body r)) = (Inr f, rd)"
      and "Hash f = Inr h"
  shows "response (handleCreate p fs err_Error began now r) =
           Responded
             \<lparr>header = [(''Content-Type'', ''application/json'')], status = 201,
              encoded = CreatedBody \<lparr>ResponseCreated.Duration = now - began,
                File = \<lparr>Bucket = b, Key = q_key r, SHA1 = h\<rparr>\<rparr>\<rparr>
       \<and> map_option request_bytes (reported (handleCreate p fs err_Error began now r))
           = Some (Some (BytesRead rd))"
  using assms
  by (simp add: Let_def handleCreate_def respondCreated_def StatusCreated_def time_Since_def
        reportMetrics_def)

theorem upload_body_digest_only_witness:
  "p_Get testProvider ''media'' = Inr (Some media)
   \<and> response (handleCreate testProvider (testFS 1000 emptyDisk) testErrorText 10 15
                 (testRequest ''POST'' ''media'' ''clip1.mp3'' [0x61])
               :: (unit, 64 word) Outcome) =
       Responded
         \<lparr>header = [(''Content-Type'', ''application/json'')], status = 201,
          encoded = CreatedBody \<lparr>ResponseCreated.Duration = 5,
            File = \<lparr>Bucket = Some media, Key = ''clip1.mp3'', SHA1 = Some [0x61]\<rparr>\<rparr>\<rparr>"
proof -
  let ?r = "testRequest ''POST'' ''media'' ''clip1.mp3'' [0x61]"
  have g: "p_Get testProvider (q_bucket ?r) = Inr (Some media)"
    by (simp add: testProvider_def testRequest_def)
  have c: "fs_Create (testFS 1000 emptyDisk) (Some media) (q_key ?r)
             (NewReaderDelegator (Body ?r) :: (byte list, 64 word) ReaderDelegator) =
           (Inr \<lparr>Hash = Inr (Some [0x61]), LastModified = 1000, Content = [0x61]\<rparr>,
            \<lparr>Reader = [], BytesRead = 1\<rparr>)"
    using create1 by (simp add: testRequest_def)
  have h: "Hash \<lparr>Hash = Inr (Some [0x61]), LastModified = 1000, Content = [0x61]\<rparr>
             = Inr (Some [0x61])"
    by simp
  from upload_body_digest_only [OF g c h, of testErrorText 10 15] g
  show ?thesis by (simp add: testRequest_def)
qed

subsection \<open>The modification time of served content\<close>

text \<open>
  C3, as stated, fails. The claim wants \<open>handleGet\<close> to serve the content with the
  last-modified timestamp of the handle that \<open>Open\<close> returned. For a stored object
  last modified at 1000 and a request handled at 5000, the modification time passed
  to \<open>http.ServeContent\<close> is 5000.
\<close>

theorem handleGet_modtime_is_clock:
  "response (handleGet testProvider
               (testFS 1000 clipDisk :: (unit, (byte list, 64 word) ReaderDelegator) FileSystem)
               testErrorText 4000 5000 (testRequest ''GET'' ''media'' ''clip1.mp3'' [])
             :: (unit, 64 word) Outcome)
     = ServeContent ''clip1.mp3'' 5000 clipHandle
   \<and> LastModified clipHandle = 1000"
  by (simp add: Let_def handleGet_def testProvider_def testFS_def testRequest_def clipDisk_def
        clipHandle_def)

text \<open>
  C3, amended. For every successful GET of an object (the bucket is found and \<open>Open\<close>
  succeeds) the handler serves the handle that \<open>Open\<close> returned, under the key as
  its name, with the reading of the clock at the time of the request as the
  modification time, whatever the handle's own last-modified timestamp is.
\<close>

theorem handleGet_serves_at_request_time:
  assumes "p_Get p (q_bucket r) = Inr b"
      and "fs_Open fs b (q_key r) = Inr f"
  shows "response (handleGet p fs err_Error began now r :: ('p, 'w::len word) Outcome)
           = ServeContent (q_key r) now f"
  using assms by (simp add: Let_def handleGet_def)

theorem handleGet_serves_at_request_time_witness:
  "p_Get testProvider ''media'' = Inr (Some media)
   \<and> fs_Open (testFS 1000 clipDisk :: (unit, (byte list, 64 word) ReaderDelegator) FileSystem)
        (Some media) ''clip1.mp3'' = Inr clipHandle
   \<and> response (handleGet testProvider
               (testFS 1000 clipDisk :: (unit, (byte list, 64 word) ReaderDelegator) FileSystem)
               testErrorText 4000 7000 (testRequest ''GET'' ''media'' ''clip1.mp3'' [])
             :: (unit, 64 word) Outcome)
     = ServeContent ''clip1.mp3'' 7000 clipHandle"
proof -
  let ?r = "testRequest ''GET'' ''media'' ''clip1.mp3'' []"
  let ?fs = "testFS 1000 clipDisk :: (unit, (byte list, 64 word) ReaderDelegator) FileSystem"
  have g: "p_Get testProvider (q_bucket ?r) = Inr (Some media)"
    by (simp add: testProvider_def testRequest_def)
  have c: "fs_Open ?fs (Some media) (q_key ?r) = Inr clipHandle"
    by (simp add: testFS_def testRequest_def clipDisk_def clipHandle_def)
  from handleGet_serves_at_request_time [OF g c, of testErrorText 4000 7000] g c
  show ?thesis by (simp add: testRequest_def)
qed

subsection \<open>The digest in the JSON form\<close>

text \<open>
  C6. For every digest \<open>h\<close>, a successful upload carries \<open>h\<close> in its
  \<open>ResponseFile\<close> as the raw byte sequence, and \<open>MarshalJSON\<close> hands to the JSON
  encoder a wrapper whose \<open>sha1\<close> is the hexadecimal text of \<open>h\<close>: two digits for
  each byte, the sixteens first.
\<close>

theorem upload_digest_hex_in_json:
  "encoded (respondCreated now b k h d) =
     CreatedBody \<lparr>ResponseCreated.Duration = now - d, File = \<lparr>Bucket = b, Key = k, SHA1 = h\<rparr>\<rparr>
   \<and> MarshalJSON json_Marshal \<lparr>Bucket = b, Key = k, SHA1 = h\<rparr> =
       json_Marshal \<lparr>responseFileWrapper.Bucket = b, responseFileWrapper.Key = k,
                     responseFileWrapper.SHA1 = hex_text (elems h)\<rparr>"
  by (simp add: respondCreated_def time_Since_def MarshalJSON_def EncodeToString_def
        Encode_hex_text)

theorem upload_digest_hex_in_json_witness:
  "MarshalJSON testMarshal \<lparr>Bucket = None, Key = ''clip1.mp3'', SHA1 = Some [0x0a, 0xff]\<rparr>
     = Inr goodText
   \<and> hex_text [0x0a, 0xff] = ''0aff''"
proof -
  have h: "hex_text [0x0a, 0xff] = ''0aff''"
    by code_simp
  show ?thesis
    using upload_digest_hex_in_json [of 15 None "''clip1.mp3''" "Some [0x0a, 0xff]" 10 testMarshal]
    by (simp add: testMarshal_def goodWrapper_def elems_def h)
qed

subsection \<open>The body of the bucket listing\<close>

text \<open>
  C7. For every successful \<open>GET /\<close> (the provider's \<open>List\<close> succeeds), the
  \<open>Buckets\<close> field of the response body is the sequence that \<open>List\<close> returned, as
  it is, and the \<open>Count\<close> field is the length of that sequence.
\<close>

theorem handleBucketList_body:
  assumes "p_List p = Inr bs"
  shows "response (handleBucketList p err_Error began now r :: ('p, 'w::len word) Outcome) =
           Responded \<lparr>header = [(''Content-Type'', ''application/json'')], status = 200,
             encoded = BucketListBody
               \<lparr>Count = int (length (elems bs)), Duration = now - began, Buckets = bs\<rparr>\<rparr>"
  using assms
  by (simp add: handleBucketList_def respondBucketList_def StatusOK_def time_Since_def
        len_def elems_def split: option.splits)

theorem handleBucketList_body_witness:
  "p_List testProvider = Inr (Some [Some media])
   \<and> response (handleBucketList testProvider testErrorText 4000 5000
                 (testRequest ''GET'' [] [] []) :: (unit, 64 word) Outcome) =
       Responded \<lparr>header = [(''Content-Type'', ''application/json'')], status = 200,
         encoded = BucketListBody \<lparr>Count = 1, Duration = 1000, Buckets = Some [Some media]\<rparr>\<rparr>"
proof -
  have l: "p_List testProvider = Inr (Some [Some media])" by (simp add: testProvider_def)
  show ?thesis
    using l by (simp add: handleBucketList_body [OF l] elems_def)
qed

subsection \<open>The JSON round trip of ResponseFile\<close>




subsection \<open>The byte count of ReaderDelegator\<close>

text \<open>
  C9. For every embedded reader and every sequence of \<open>Read\<close> calls on a new
  \<open>ReaderDelegator\<close>, each call returns what the embedded reader's \<open>Read\<close> returns
  (count, error and buffer), the embedded reader ends in the same state, and
  \<open>BytesRead\<close> is the sum of the counts that the calls returned. The sum is that of
  Go's \<open>int\<close>; where no count is negative and the total fits the \<open>int\<close>,
  \<open>BytesRead\<close> is the total as a number.
\<close>

theorem ReaderDelegator_counts:
  fixes io_Read :: "('r, 'w::len) io_Read"
  shows "let run = Reads io_Read (NewReaderDelegator s) ps; ns = counts (fst run)
         in fst run = fst (io_Reads io_Read s ps)
          \<and> Reader (snd run) = snd (io_Reads io_Read s ps)
          \<and> BytesRead (snd run) = sum_list ns
          \<and> ((\<forall>n \<in> set ns. 0 \<le> sint n) \<and> sum_list (map sint ns) < 2 ^ (LENGTH('w) - 1)
               \<longrightarrow> sint (BytesRead (snd run)) = sum_list (map sint ns))"
  using Reads_delegates [of io_Read "NewReaderDelegator s" ps]
    sint_sum_list [of "counts (fst (Reads io_Read (NewReaderDelegator s) ps))"]
  by (simp add: Let_def NewReaderDelegator_def)

theorem ReaderDelegator_counts_witness:
  "counts (fst (Reads memRead
             (NewReaderDelegator [1, 2, 3, 4, 5] :: (byte list, 64 word) ReaderDelegator)
             [[0, 0], [0, 0], [0, 0], [0, 0]])) = [2, 2, 1, 0]
   \<and> sint (BytesRead (snd (Reads memRead
             (NewReaderDelegator [1, 2, 3, 4, 5] :: (byte list, 64 word) ReaderDelegator)
             [[0, 0], [0, 0], [0, 0], [0, 0]]))) = 5"
  using ReaderDelegator_counts [of "memRead :: (byte list, 64) io_Read" "[1, 2, 3, 4, 5]"
          "[[0, 0], [0, 0], [0, 0], [0, 0]]"]
  unfolding run5 by (simp add: Let_def counts_def memRead_def)

subsection \<open>A failed UnmarshalJSON\<close>

text \<open>
  C10. For every receiver \<open>r\<close> and every input \<open>d\<close>, if \<open>UnmarshalJSON\<close> returns an
  error, from the JSON library or from decoding the hexadecimal \<open>sha1\<close>, then the
  receiver is unchanged.
\<close>

theorem UnmarshalJSON_error_keeps_receiver:
  "UnmarshalJSON json_Unmarshal r d = (Some e, r') \<Longrightarrow> r' = r"
  by (auto simp: UnmarshalJSON_def split: sum.splits)

theorem UnmarshalJSON_error_keeps_receiver_witness:
  "UnmarshalJSON testUnmarshal \<lparr>Bucket = Some media, Key = ''old'', SHA1 = None\<rparr> oddText
     = (Some ErrLength, \<lparr>Bucket = Some media, Key = ''old'', SHA1 = None\<rparr>)
   \<and> UnmarshalJSON testUnmarshal \<lparr>Bucket = Some media, Key = ''old'', SHA1 = None\<rparr> [0x7b]
     = (Some (OtherError ''invalid JSON''), \<lparr>Bucket = Some media, Key = ''old'', SHA1 = None\<rparr>)"
proof -
  let ?r = "\<lparr>Bucket = Some media, Key = ''old'', SHA1 = None\<rparr> :: unit ResponseFile"
  have a: "fst (UnmarshalJSON testUnmarshal ?r oddText) = Some ErrLength"
    by (simp add: UnmarshalJSON_def testUnmarshal_def goodText_def oddText_def bytes_of_def
          oddWrapper_def DecodeString_def)
  have b: "fst (UnmarshalJSON testUnmarshal ?r [0x7b]) = Some (OtherError ''invalid JSON'')"
    by (simp add: UnmarshalJSON_def testUnmarshal_def goodText_def oddText_def badKeyText_def
          bytes_of_def)
  from a UnmarshalJSON_error_keeps_receiver [of testUnmarshal ?r oddText ErrLength
         "snd (UnmarshalJSON testUnmarshal ?r oddText)"]
  have "UnmarshalJSON testUnmarshal ?r oddText = (Some ErrLength, ?r)"
    by (metis prod.collapse)
  moreover from b UnmarshalJSON_error_keeps_receiver [of testUnmarshal ?r "[0x7b]"
         "OtherError ''invalid JSON''" "snd (UnmarshalJSON testUnmarshal ?r [0x7b])"]
  have "UnmarshalJSON testUnmarshal ?r [0x7b] = (Some (OtherError ''invalid JSON''), ?r)"
    by (metis prod.collapse)
  ultimately show ?thesis by simp
qed

end
